theory Spec2Isabelle
  imports Main
begin

section \<open>The world the wrappers live in\<close>

text \<open>
  \<^verbatim>\<open>memory.hpp\<close> defines three owning wrappers: \<^verbatim>\<open>unique_handle\<close> (a scalar handle with
  a policy-supplied null value) and \<^verbatim>\<open>generic_unique_ptr\<close> / \<^verbatim>\<open>generic_shared_ptr\<close>, both
  derived from \<^verbatim>\<open>xx_impl::generic_smart_ptr\<close> (a raw pointer). Each wrapper object has one
  field (\<^verbatim>\<open>_obj\<close>, respectively \<^verbatim>\<open>_p\<close>), and every effect of a member function is a write to
  such a field or a call of a static function of the policy.

  Wrapper objects are named by their identity (a natural number), so that two arguments
  of an operation may be the same object. The world holds
  \<^item> \<open>slots\<close>: the field of every wrapper object;
  \<^item> \<open>ext\<close>: whatever the policy's functions act on (reference counts, open files);
  \<^item> \<open>trace\<close>: the calls made to the policy so far, oldest first;
  \<^item> \<open>seen\<close>: for every call of the policy's \<^verbatim>\<open>release\<close>, what the field of the wrapper
    making the call held at that moment (what a re-entrant read of that wrapper from
    inside \<^verbatim>\<open>release\<close> would find).
\<close>

datatype 'v call = Release 'v | AddRef 'v

record ('v, 'x) world =
  slots :: "nat \<Rightarrow> 'v"
  ext :: 'x
  trace :: "'v call list"
  seen :: "'v list"

text \<open>A function that may throw either returns or raises; both leave a world behind.\<close>

datatype 'a outcome = Returned 'a | Raised 'a

fun state_of :: "'a outcome \<Rightarrow> 'a" where
  "state_of (Returned s) = s"
| "state_of (Raised s) = s"

fun released :: "'v call list \<Rightarrow> 'v list" where
  "released [] = []"
| "released (Release v # cs) = v # released cs"
| "released (AddRef v # cs) = released cs"

fun add_refed :: "'v call list \<Rightarrow> 'v list" where
  "add_refed [] = []"
| "add_refed (Release v # cs) = add_refed cs"
| "add_refed (AddRef v # cs) = v # add_refed cs"

section \<open>\<^verbatim>\<open>unique_handle<HandleDeleter>\<close>\<close>

text \<open>
  The policy: \<^verbatim>\<open>static const T null\<close> and \<^verbatim>\<open>static void release(T handle) noexcept\<close>.
\<close>

record ('h, 'x) HandleDeleter =
  HandleDeleter_null :: 'h
  HandleDeleter_release :: "'h \<Rightarrow> 'x \<Rightarrow> 'x"

text \<open>The call \<^verbatim>\<open>HandleDeleter::release(v)\<close> made from a member function of wrapper \<open>this\<close>.\<close>

definition uh_call_release ::
  "('h, 'x) HandleDeleter \<Rightarrow> nat \<Rightarrow> 'h \<Rightarrow> ('h, 'x) world \<Rightarrow> ('h, 'x) world" where
  "uh_call_release D this v st =
     st\<lparr>ext := HandleDeleter_release D v (ext st),
        trace := trace st @ [Release v],
        seen := seen st @ [slots st this]\<rparr>"

definition uh_get :: "('h, 'x) world \<Rightarrow> nat \<Rightarrow> 'h" where
  "uh_get st this = slots st this"

definition uh_release ::
  "('h, 'x) HandleDeleter \<Rightarrow> nat \<Rightarrow> ('h, 'x) world \<Rightarrow> 'h \<times> ('h, 'x) world" where
  "uh_release D this st =
     (let retval = slots st this
      in (retval, st\<lparr>slots := (slots st)(this := HandleDeleter_null D)\<rparr>))"

definition uh_reset ::
  "('h, 'x) HandleDeleter \<Rightarrow> nat \<Rightarrow> 'h \<Rightarrow> ('h, 'x) world \<Rightarrow> ('h, 'x) world" where
  "uh_reset D this new_obj st =
     (let old_obj = slots st this;
          st1 = st\<lparr>slots := (slots st)(this := new_obj)\<rparr>
      in if old_obj \<noteq> HandleDeleter_null D then uh_call_release D this old_obj st1 else st1)"

definition uh_dtor ::
  "('h, 'x) HandleDeleter \<Rightarrow> nat \<Rightarrow> ('h, 'x) world \<Rightarrow> ('h, 'x) world" where
  "uh_dtor D this st =
     (if slots st this \<noteq> HandleDeleter_null D
      then uh_call_release D this (slots st this) st else st)"

definition uh_ctor_default ::
  "('h, 'x) HandleDeleter \<Rightarrow> nat \<Rightarrow> ('h, 'x) world \<Rightarrow> ('h, 'x) world" where
  "uh_ctor_default D this st = st\<lparr>slots := (slots st)(this := HandleDeleter_null D)\<rparr>"

definition uh_ctor :: "nat \<Rightarrow> 'h \<Rightarrow> ('h, 'x) world \<Rightarrow> ('h, 'x) world" where
  "uh_ctor this obj st = st\<lparr>slots := (slots st)(this := obj)\<rparr>"

definition uh_move_ctor ::
  "('h, 'x) HandleDeleter \<Rightarrow> nat \<Rightarrow> nat \<Rightarrow> ('h, 'x) world \<Rightarrow> ('h, 'x) world" where
  "uh_move_ctor D this other st =
     (let st1 = st\<lparr>slots := (slots st)(this := slots st other)\<rparr>
      in st1\<lparr>slots := (slots st1)(other := HandleDeleter_null D)\<rparr>)"

definition uh_move_assign ::
  "('h, 'x) HandleDeleter \<Rightarrow> nat \<Rightarrow> nat \<Rightarrow> ('h, 'x) world \<Rightarrow> ('h, 'x) world" where
  "uh_move_assign D this other st =
     (case uh_release D other st of (v, st1) \<Rightarrow> uh_reset D this v st1)"

definition uh_assign_nullptr ::
  "('h, 'x) HandleDeleter \<Rightarrow> nat \<Rightarrow> ('h, 'x) world \<Rightarrow> ('h, 'x) world" where
  "uh_assign_nullptr D this st = uh_reset D this (HandleDeleter_null D) st"

definition uh_swap :: "nat \<Rightarrow> nat \<Rightarrow> ('h, 'x) world \<Rightarrow> ('h, 'x) world" where
  "uh_swap this other st =
     st\<lparr>slots := (slots st)(this := slots st other, other := slots st this)\<rparr>"

definition uh_bool :: "('h, 'x) HandleDeleter \<Rightarrow> ('h, 'x) world \<Rightarrow> nat \<Rightarrow> bool" where
  "uh_bool D st this = (slots st this \<noteq> HandleDeleter_null D)"

text \<open>The comparison operators of \<^verbatim>\<open>unique_handle\<close>; the handle type is a scalar.\<close>

definition uh_eq :: "('h, 'x) world \<Rightarrow> nat \<Rightarrow> nat \<Rightarrow> bool" where
  "uh_eq st a b = (uh_get st a = uh_get st b)"

definition uh_ne :: "('h, 'x) world \<Rightarrow> nat \<Rightarrow> nat \<Rightarrow> bool" where
  "uh_ne st a b = (uh_get st a \<noteq> uh_get st b)"

definition uh_ge :: "('h::linorder, 'x) world \<Rightarrow> nat \<Rightarrow> nat \<Rightarrow> bool" where
  "uh_ge st a b = (uh_get st a \<ge> uh_get st b)"

definition uh_le :: "('h::linorder, 'x) world \<Rightarrow> nat \<Rightarrow> nat \<Rightarrow> bool" where
  "uh_le st a b = (uh_get st a \<le> uh_get st b)"

definition uh_gt :: "('h::linorder, 'x) world \<Rightarrow> nat \<Rightarrow> nat \<Rightarrow> bool" where
  "uh_gt st a b = (uh_get st a > uh_get st b)"

definition uh_lt :: "('h::linorder, 'x) world \<Rightarrow> nat \<Rightarrow> nat \<Rightarrow> bool" where
  "uh_lt st a b = (uh_get st a < uh_get st b)"

text \<open>
  \<^verbatim>\<open>std::hash<unique_handle<HandleDeleter>>\<close>: the standard library's hash of the handle
  type, here the parameter \<open>std_hash\<close>, applied to \<^verbatim>\<open>x.get()\<close>.
\<close>

definition uh_hash :: "('h \<Rightarrow> nat) \<Rightarrow> ('h, 'x) world \<Rightarrow> nat \<Rightarrow> nat" where
  "uh_hash std_hash st x = std_hash (uh_get st x)"

section \<open>\<^verbatim>\<open>xx_impl::generic_smart_ptr\<close>, the base of both pointer wrappers\<close>

text \<open>A raw pointer is an address; the null pointer is address 0.\<close>

type_synonym pointer = nat

abbreviation nullptr :: pointer where
  "nullptr \<equiv> 0"

text \<open>
  The policy: \<^verbatim>\<open>static void release(T* ptr) noexcept\<close>, \<^verbatim>\<open>static void add_ref(T* ptr)\<close>
  (which is not declared \<^verbatim>\<open>noexcept\<close> and so may raise) and
  \<^verbatim>\<open>static long use_count(T* ptr) noexcept\<close>.
\<close>

record 'x GenericDeleter =
  GenericDeleter_release :: "pointer \<Rightarrow> 'x \<Rightarrow> 'x"
  GenericDeleter_add_ref :: "pointer \<Rightarrow> 'x \<Rightarrow> 'x outcome"
  GenericDeleter_use_count :: "pointer \<Rightarrow> 'x \<Rightarrow> int"

definition sp_call_release ::
  "'x GenericDeleter \<Rightarrow> nat \<Rightarrow> pointer \<Rightarrow> (pointer, 'x) world \<Rightarrow> (pointer, 'x) world" where
  "sp_call_release D this p st =
     st\<lparr>ext := GenericDeleter_release D p (ext st),
        trace := trace st @ [Release p],
        seen := seen st @ [slots st this]\<rparr>"

text \<open>
  The call \<^verbatim>\<open>GenericDeleter::add_ref(p)\<close>: the call is recorded whether it returns or
  raises.
\<close>

definition sp_call_add_ref ::
  "'x GenericDeleter \<Rightarrow> pointer \<Rightarrow> (pointer, 'x) world \<Rightarrow> (pointer, 'x) world outcome" where
  "sp_call_add_ref D p st =
     (case GenericDeleter_add_ref D p (ext st) of
        Returned x \<Rightarrow> Returned (st\<lparr>ext := x, trace := trace st @ [AddRef p]\<rparr>)
      | Raised x \<Rightarrow> Raised (st\<lparr>ext := x, trace := trace st @ [AddRef p]\<rparr>))"

definition sp_get :: "(pointer, 'x) world \<Rightarrow> nat \<Rightarrow> pointer" where
  "sp_get st this = slots st this"

definition sp_bool :: "(pointer, 'x) world \<Rightarrow> nat \<Rightarrow> bool" where
  "sp_bool st this = (slots st this \<noteq> nullptr)"

definition sp_release :: "nat \<Rightarrow> (pointer, 'x) world \<Rightarrow> pointer \<times> (pointer, 'x) world" where
  "sp_release this st =
     (let retval = slots st this
      in (retval, st\<lparr>slots := (slots st)(this := nullptr)\<rparr>))"

definition sp_reset ::
  "'x GenericDeleter \<Rightarrow> nat \<Rightarrow> pointer \<Rightarrow> (pointer, 'x) world \<Rightarrow> (pointer, 'x) world" where
  "sp_reset D this ptr st =
     (let old_ptr = slots st this;
          st1 = st\<lparr>slots := (slots st)(this := ptr)\<rparr>
      in if old_ptr \<noteq> nullptr then sp_call_release D this old_ptr st1 else st1)"

definition sp_dtor ::
  "'x GenericDeleter \<Rightarrow> nat \<Rightarrow> (pointer, 'x) world \<Rightarrow> (pointer, 'x) world" where
  "sp_dtor D this st =
     (if slots st this \<noteq> nullptr then sp_call_release D this (slots st this) st else st)"

definition sp_swap :: "nat \<Rightarrow> nat \<Rightarrow> (pointer, 'x) world \<Rightarrow> (pointer, 'x) world" where
  "sp_swap this other st =
     st\<lparr>slots := (slots st)(this := slots st other, other := slots st this)\<rparr>"

definition sp_move_assign ::
  "'x GenericDeleter \<Rightarrow> nat \<Rightarrow> nat \<Rightarrow> (pointer, 'x) world \<Rightarrow> (pointer, 'x) world" where
  "sp_move_assign D this other st =
     (case sp_release other st of (p, st1) \<Rightarrow> sp_reset D this p st1)"

definition sp_assign_nullptr ::
  "'x GenericDeleter \<Rightarrow> nat \<Rightarrow> (pointer, 'x) world \<Rightarrow> (pointer, 'x) world" where
  "sp_assign_nullptr D this st = sp_reset D this nullptr st"

definition sp_ctor_default :: "nat \<Rightarrow> (pointer, 'x) world \<Rightarrow> (pointer, 'x) world" where
  "sp_ctor_default this st = st\<lparr>slots := (slots st)(this := nullptr)\<rparr>"

definition sp_ctor :: "nat \<Rightarrow> pointer \<Rightarrow> (pointer, 'x) world \<Rightarrow> (pointer, 'x) world" where
  "sp_ctor this ptr st = st\<lparr>slots := (slots st)(this := ptr)\<rparr>"

definition sp_move_ctor :: "nat \<Rightarrow> nat \<Rightarrow> (pointer, 'x) world \<Rightarrow> (pointer, 'x) world" where
  "sp_move_ctor this other st =
     (let st1 = st\<lparr>slots := (slots st)(this := slots st other)\<rparr>
      in st1\<lparr>slots := (slots st1)(other := nullptr)\<rparr>)"

text \<open>
  The comparisons with \<^verbatim>\<open>nullptr\<close> in \<^verbatim>\<open>xx_impl\<close>: \<^verbatim>\<open>operator==\<close> returns \<^verbatim>\<open>!!a\<close> and
  \<^verbatim>\<open>operator!=\<close> returns \<^verbatim>\<open>!a\<close>, whichever side the literal is on.
\<close>

definition sp_eq_nullptr :: "(pointer, 'x) world \<Rightarrow> nat \<Rightarrow> bool" where
  "sp_eq_nullptr st a = (\<not> \<not> sp_bool st a)"

definition nullptr_eq_sp :: "(pointer, 'x) world \<Rightarrow> nat \<Rightarrow> bool" where
  "nullptr_eq_sp st a = (\<not> \<not> sp_bool st a)"

definition sp_ne_nullptr :: "(pointer, 'x) world \<Rightarrow> nat \<Rightarrow> bool" where
  "sp_ne_nullptr st a = (\<not> sp_bool st a)"

definition nullptr_ne_sp :: "(pointer, 'x) world \<Rightarrow> nat \<Rightarrow> bool" where
  "nullptr_ne_sp st a = (\<not> sp_bool st a)"

section \<open>\<^verbatim>\<open>generic_unique_ptr\<close> and \<^verbatim>\<open>generic_shared_ptr\<close>\<close>

text \<open>
  Both classes inherit every member above; their constructors forward to the base's.
  Each has its own six comparison operators, all on \<^verbatim>\<open>get()\<close>.
\<close>

definition unique_eq :: "(pointer, 'x) world \<Rightarrow> nat \<Rightarrow> nat \<Rightarrow> bool" where
  "unique_eq st a b = (sp_get st a = sp_get st b)"

definition unique_ne :: "(pointer, 'x) world \<Rightarrow> nat \<Rightarrow> nat \<Rightarrow> bool" where
  "unique_ne st a b = (sp_get st a \<noteq> sp_get st b)"

definition unique_ge :: "(pointer, 'x) world \<Rightarrow> nat \<Rightarrow> nat \<Rightarrow> bool" where
  "unique_ge st a b = (sp_get st a \<ge> sp_get st b)"

definition unique_le :: "(pointer, 'x) world \<Rightarrow> nat \<Rightarrow> nat \<Rightarrow> bool" where
  "unique_le st a b = (sp_get st a \<le> sp_get st b)"

definition unique_gt :: "(pointer, 'x) world \<Rightarrow> nat \<Rightarrow> nat \<Rightarrow> bool" where
  "unique_gt st a b = (sp_get st a > sp_get st b)"

definition unique_lt :: "(pointer, 'x) world \<Rightarrow> nat \<Rightarrow> nat \<Rightarrow> bool" where
  "unique_lt st a b = (sp_get st a < sp_get st b)"

definition shared_eq :: "(pointer, 'x) world \<Rightarrow> nat \<Rightarrow> nat \<Rightarrow> bool" where
  "shared_eq st a b = (sp_get st a = sp_get st b)"

definition shared_ne :: "(pointer, 'x) world \<Rightarrow> nat \<Rightarrow> nat \<Rightarrow> bool" where
  "shared_ne st a b = (sp_get st a \<noteq> sp_get st b)"

definition shared_ge :: "(pointer, 'x) world \<Rightarrow> nat \<Rightarrow> nat \<Rightarrow> bool" where
  "shared_ge st a b = (sp_get st a \<ge> sp_get st b)"

definition shared_le :: "(pointer, 'x) world \<Rightarrow> nat \<Rightarrow> nat \<Rightarrow> bool" where
  "shared_le st a b = (sp_get st a \<le> sp_get st b)"

definition shared_gt :: "(pointer, 'x) world \<Rightarrow> nat \<Rightarrow> nat \<Rightarrow> bool" where
  "shared_gt st a b = (sp_get st a > sp_get st b)"

definition shared_lt :: "(pointer, 'x) world \<Rightarrow> nat \<Rightarrow> nat \<Rightarrow> bool" where
  "shared_lt st a b = (sp_get st a < sp_get st b)"

text \<open>
  The copy constructor of \<^verbatim>\<open>generic_shared_ptr\<close>: the base is built from \<^verbatim>\<open>other.get()\<close>,
  then the body calls \<^verbatim>\<open>add_ref\<close> if the pointer is not null. When the body raises, the
  base subobject is already constructed, so its destructor runs before the exception
  leaves the constructor.
\<close>

definition shared_copy_ctor ::
  "'x GenericDeleter \<Rightarrow> nat \<Rightarrow> nat \<Rightarrow> (pointer, 'x) world \<Rightarrow> (pointer, 'x) world outcome" where
  "shared_copy_ctor D this other st =
     (let st1 = sp_ctor this (sp_get st other) st
      in if sp_get st1 this \<noteq> nullptr
         then (case sp_call_add_ref D (sp_get st1 this) st1 of
                 Returned st2 \<Rightarrow> Returned st2
               | Raised st2 \<Rightarrow> Raised (sp_dtor D this st2))
         else Returned st1)"

text \<open>
  Copy assignment: \<^verbatim>\<open>generic_shared_ptr(other).swap(*this)\<close>. The temporary is the
  wrapper object \<open>tmp\<close>; it is destroyed at the end of the statement.
\<close>

definition shared_copy_assign ::
  "'x GenericDeleter \<Rightarrow> nat \<Rightarrow> nat \<Rightarrow> nat \<Rightarrow> (pointer, 'x) world
     \<Rightarrow> (pointer, 'x) world outcome" where
  "shared_copy_assign D tmp this other st =
     (case shared_copy_ctor D tmp other st of
        Raised st1 \<Rightarrow> Raised st1
      | Returned st1 \<Rightarrow> Returned (sp_dtor D tmp (sp_swap tmp this st1)))"

section \<open>Example policies and worlds\<close>

text \<open>
  The reference-counting policy sketched in the header's documentation (\<^verbatim>\<open>GLibDeleter\<close>):
  \<^verbatim>\<open>add_ref\<close> increases and \<^verbatim>\<open>release\<close> decreases the count of the object.
\<close>

definition refcount :: "(pointer \<Rightarrow> int) GenericDeleter" where
  "refcount =
     \<lparr>GenericDeleter_release = (\<lambda>p x. x(p := x p - 1)),
      GenericDeleter_add_ref = (\<lambda>p x. Returned (x(p := x p + 1))),
      GenericDeleter_use_count = (\<lambda>p x. x p)\<rparr>"

text \<open>A policy whose \<^verbatim>\<open>add_ref\<close> raises and leaves the counts as they are.\<close>

definition refusing :: "(pointer \<Rightarrow> int) GenericDeleter" where
  "refusing =
     \<lparr>GenericDeleter_release = (\<lambda>p x. x(p := x p - 1)),
      GenericDeleter_add_ref = (\<lambda>p x. Raised x),
      GenericDeleter_use_count = (\<lambda>p x. x p)\<rparr>"

text \<open>
  The file-descriptor policy of the header's documentation (\<^verbatim>\<open>POSIXFileDeleter\<close>): null is
  \<open>-1\<close>, and \<^verbatim>\<open>release\<close> closes the descriptor. The policy's world is the list of open
  descriptors.
\<close>

definition posix_file :: "(int, int list) HandleDeleter" where
  "posix_file =
     \<lparr>HandleDeleter_null = - 1,
      HandleDeleter_release = (\<lambda>h fds. remove1 h fds)\<rparr>"

text \<open>
  Wrapper 1 holds the object at address 5 and wrapper 2 the object at address 7, each
  with one reference; every other wrapper is null.
\<close>

definition two_ptr_world :: "(pointer, pointer \<Rightarrow> int) world" where
  "two_ptr_world =
     \<lparr>slots = (\<lambda>_. nullptr)(1 := 5, 2 := 7),
      ext = (\<lambda>_. 0)(5 := 1, 7 := 1),
      trace = [], seen = []\<rparr>"

text \<open>Wrapper 1 holds descriptor 5 and wrapper 2 descriptor 7; every other one is null.\<close>

definition two_fd_world :: "(int, int list) world" where
  "two_fd_world =
     \<lparr>slots = (\<lambda>_. - 1)(1 := 5, 2 := 7),
      ext = [5, 7],
      trace = [], seen = []\<rparr>"

section \<open>Programs over the wrappers\<close>

text \<open>
  The operations of a \<^verbatim>\<open>unique_handle\<close> that change the world, and a program as a list of
  them run in order.
\<close>

datatype 'h uh_op =
    UH_ctor_default nat
  | UH_ctor nat 'h
  | UH_move_ctor nat nat
  | UH_release nat
  | UH_reset nat 'h
  | UH_dtor nat
  | UH_move_assign nat nat
  | UH_assign_nullptr nat
  | UH_swap nat nat

fun uh_do :: "('h, 'x) HandleDeleter \<Rightarrow> 'h uh_op \<Rightarrow> ('h, 'x) world \<Rightarrow> ('h, 'x) world" where
  "uh_do D (UH_ctor_default this) st = uh_ctor_default D this st"
| "uh_do D (UH_ctor this obj) st = uh_ctor this obj st"
| "uh_do D (UH_move_ctor this other) st = uh_move_ctor D this other st"
| "uh_do D (UH_release this) st = snd (uh_release D this st)"
| "uh_do D (UH_reset this new_obj) st = uh_reset D this new_obj st"
| "uh_do D (UH_dtor this) st = uh_dtor D this st"
| "uh_do D (UH_move_assign this other) st = uh_move_assign D this other st"
| "uh_do D (UH_assign_nullptr this) st = uh_assign_nullptr D this st"
| "uh_do D (UH_swap this other) st = uh_swap this other st"

fun uh_run :: "('h, 'x) HandleDeleter \<Rightarrow> 'h uh_op list \<Rightarrow> ('h, 'x) world \<Rightarrow> ('h, 'x) world" where
  "uh_run D [] st = st"
| "uh_run D (c # cs) st = uh_run D cs (uh_do D c st)"

text \<open>
  The same for the pointer wrappers, exclusive and shared. A copy may raise (when
  \<^verbatim>\<open>add_ref\<close> does); the program goes on from the world the exception left, as a caller
  that catches it would.
\<close>

datatype sp_op =
    SP_ctor_default nat
  | SP_ctor nat pointer
  | SP_move_ctor nat nat
  | SP_release nat
  | SP_reset nat pointer
  | SP_dtor nat
  | SP_move_assign nat nat
  | SP_assign_nullptr nat
  | SP_swap nat nat
  | Shared_copy_ctor nat nat
  | Shared_copy_assign nat nat nat

fun sp_do :: "'x GenericDeleter \<Rightarrow> sp_op \<Rightarrow> (pointer, 'x) world \<Rightarrow> (pointer, 'x) world outcome" where
  "sp_do D (SP_ctor_default this) st = Returned (sp_ctor_default this st)"
| "sp_do D (SP_ctor this ptr) st = Returned (sp_ctor this ptr st)"
| "sp_do D (SP_move_ctor this other) st = Returned (sp_move_ctor this other st)"
| "sp_do D (SP_release this) st = Returned (snd (sp_release this st))"
| "sp_do D (SP_reset this ptr) st = Returned (sp_reset D this ptr st)"
| "sp_do D (SP_dtor this) st = Returned (sp_dtor D this st)"
| "sp_do D (SP_move_assign this other) st = Returned (sp_move_assign D this other st)"
| "sp_do D (SP_assign_nullptr this) st = Returned (sp_assign_nullptr D this st)"
| "sp_do D (SP_swap this other) st = Returned (sp_swap this other st)"
| "sp_do D (Shared_copy_ctor this other) st = shared_copy_ctor D this other st"
| "sp_do D (Shared_copy_assign tmp this other) st = shared_copy_assign D tmp this other st"

fun sp_run :: "'x GenericDeleter \<Rightarrow> sp_op list \<Rightarrow> (pointer, 'x) world \<Rightarrow> (pointer, 'x) world" where
  "sp_run D [] st = st"
| "sp_run D (c # cs) st = sp_run D cs (state_of (sp_do D c st))"

section \<open>Basic facts about the operations\<close>

lemmas uh_ops =
  uh_call_release_def uh_get_def uh_release_def uh_reset_def uh_dtor_def
  uh_ctor_default_def uh_ctor_def uh_move_ctor_def uh_move_assign_def
  uh_assign_nullptr_def uh_swap_def uh_bool_def

lemmas sp_ops =
  sp_call_release_def sp_call_add_ref_def sp_get_def sp_bool_def sp_release_def
  sp_reset_def sp_dtor_def sp_swap_def sp_move_assign_def sp_assign_nullptr_def
  sp_ctor_default_def sp_ctor_def sp_move_ctor_def

lemma sp_reset_trace:
  "trace (sp_reset D this q st) =
     trace st @ (if slots st this \<noteq> nullptr then [Release (slots st this)] else [])"
  by (simp add: sp_reset_def sp_call_release_def Let_def)

lemma sp_dtor_trace:
  "trace (sp_dtor D this st) =
     trace st @ (if slots st this \<noteq> nullptr then [Release (slots st this)] else [])"
  by (simp add: sp_dtor_def sp_call_release_def)

lemma uh_reset_trace:
  "trace (uh_reset D this q st) =
     trace st @ (if slots st this \<noteq> HandleDeleter_null D then [Release (slots st this)] else [])"
  by (simp add: uh_reset_def uh_call_release_def Let_def)

lemma uh_dtor_trace:
  "trace (uh_dtor D this st) =
     trace st @ (if slots st this \<noteq> HandleDeleter_null D then [Release (slots st this)] else [])"
  by (simp add: uh_dtor_def uh_call_release_def)

lemma sp_reset_slots: "slots (sp_reset D this q st) = (slots st)(this := q)"
  by (simp add: sp_reset_def sp_call_release_def Let_def)

lemma uh_reset_slots: "slots (uh_reset D this q st) = (slots st)(this := q)"
  by (simp add: uh_reset_def uh_call_release_def Let_def)

lemma sp_dtor_slots: "slots (sp_dtor D this st) = slots st"
  by (simp add: sp_dtor_def sp_call_release_def)

lemma uh_dtor_slots: "slots (uh_dtor D this st) = slots st"
  by (simp add: uh_dtor_def uh_call_release_def)

section \<open>Comparison with the null literal\<close>

lemma sp_eq_nullptr_is_bool:
  "sp_eq_nullptr st a = sp_bool st a \<and> nullptr_eq_sp st a = sp_bool st a"
  by (simp add: sp_eq_nullptr_def nullptr_eq_sp_def)

lemma sp_ne_nullptr_is_not_bool:
  "sp_ne_nullptr st a = (\<not> sp_bool st a) \<and> nullptr_ne_sp st a = (\<not> sp_bool st a)"
  by (simp add: sp_ne_nullptr_def nullptr_ne_sp_def)

text \<open>
  C1. A pointer wrapper should compare equal to the null literal exactly when its boolean
  conversion is false. The operators return the opposite: wrapper 1 holds the non-null
  address 5, its boolean conversion is true, and yet \<^verbatim>\<open>w == nullptr\<close> and
  \<^verbatim>\<open>nullptr == w\<close> are true and \<^verbatim>\<open>w != nullptr\<close> and \<^verbatim>\<open>nullptr != w\<close> are false; the null
  wrapper 3 compares unequal to the null literal.
\<close>

theorem null_comparison_inverted:
  "sp_get two_ptr_world 1 = 5 \<and> sp_bool two_ptr_world 1
   \<and> sp_eq_nullptr two_ptr_world 1 \<and> nullptr_eq_sp two_ptr_world 1
   \<and> \<not> sp_ne_nullptr two_ptr_world 1 \<and> \<not> nullptr_ne_sp two_ptr_world 1
   \<and> sp_get two_ptr_world 3 = nullptr \<and> \<not> sp_bool two_ptr_world 3
   \<and> \<not> sp_eq_nullptr two_ptr_world 3 \<and> \<not> nullptr_eq_sp two_ptr_world 3
   \<and> sp_ne_nullptr two_ptr_world 3 \<and> nullptr_ne_sp two_ptr_world 3"
  by (simp add: two_ptr_world_def sp_get_def sp_bool_def sp_eq_nullptr_def
      nullptr_eq_sp_def sp_ne_nullptr_def nullptr_ne_sp_def)

section \<open>Release on reset and on destruction\<close>

text \<open>
  C2, as the code has it. For an exclusive pointer wrapper holding a non-null pointer
  \<open>p\<close>, \<^verbatim>\<open>reset(q)\<close> and the destructor each call the policy's \<^verbatim>\<open>release\<close> exactly once, on
  \<open>p\<close>. \<^verbatim>\<open>reset(q)\<close> stores \<open>q\<close> (null by default) before the call, so \<^verbatim>\<open>release\<close> runs
  while the wrapper already holds \<open>q\<close>; the destructor does not touch the field, so
  \<^verbatim>\<open>release\<close> runs while the wrapper still holds \<open>p\<close>.
\<close>

theorem exclusive_release_once:
  assumes "sp_get st this = p" and "p \<noteq> nullptr"
  shows "trace (sp_reset D this q st) = trace st @ [Release p]
       \<and> seen (sp_reset D this q st) = seen st @ [q]
       \<and> ext (sp_reset D this q st) = GenericDeleter_release D p (ext st)
       \<and> sp_get (sp_reset D this q st) this = q
       \<and> trace (sp_dtor D this st) = trace st @ [Release p]
       \<and> seen (sp_dtor D this st) = seen st @ [p]
       \<and> ext (sp_dtor D this st) = GenericDeleter_release D p (ext st)"
  using assms by (simp add: sp_ops Let_def)

theorem exclusive_release_once_witness:
  "trace (sp_reset refcount 1 nullptr two_ptr_world) = [Release 5]
   \<and> seen (sp_reset refcount 1 nullptr two_ptr_world) = [nullptr]
   \<and> ext (sp_reset refcount 1 nullptr two_ptr_world) 5 = 0
   \<and> sp_get (sp_reset refcount 1 nullptr two_ptr_world) 1 = nullptr
   \<and> trace (sp_dtor refcount 1 two_ptr_world) = [Release 5]
   \<and> seen (sp_dtor refcount 1 two_ptr_world) = [5]
   \<and> ext (sp_dtor refcount 1 two_ptr_world) 5 = 0"
proof -
  have held: "sp_get two_ptr_world 1 = 5"
    by (simp add: two_ptr_world_def sp_get_def)
  have nonnull: "(5::pointer) \<noteq> nullptr"
    by simp
  show ?thesis
    using exclusive_release_once [OF held nonnull, of refcount nullptr]
    by (simp add: two_ptr_world_def refcount_def)
qed

text \<open>
  The destructor of wrapper 1, which holds address 5, calls \<^verbatim>\<open>release(5)\<close> while the
  wrapper's field still reads 5: the field is not null when \<^verbatim>\<open>release\<close> runs.
\<close>

theorem dtor_slot_not_cleared_counterexample:
  "sp_get two_ptr_world 1 = 5
   \<and> trace (sp_dtor refcount 1 two_ptr_world) = [Release 5]
   \<and> seen (sp_dtor refcount 1 two_ptr_world) = [5]
   \<and> seen (sp_dtor refcount 1 two_ptr_world) \<noteq> [nullptr]"
  by (simp add: two_ptr_world_def refcount_def sp_ops)

section \<open>Moving\<close>

text \<open>
  C3, as the code has it. Move construction calls nothing of the policy, leaves the
  source null and, the new wrapper being another object than its source, makes
  \<^verbatim>\<open>release()\<close> on the new wrapper return what the source held. Move assignment is
  \<^verbatim>\<open>reset(other.release())\<close>: it never calls \<^verbatim>\<open>add_ref\<close>, and its only call of
  \<^verbatim>\<open>release\<close> is on what the destination held before, once, when that is not null and
  the source is another object; when the source is another object it is null afterwards,
  and assigning a wrapper to itself leaves it as it was; \<^verbatim>\<open>release()\<close> on the destination
  returns what the source held. What the policy manages changes by that one
  \<^verbatim>\<open>release\<close> and not otherwise. This holds for the scalar handle and for the pointer
  wrappers.
\<close>

theorem move_transfers_ownership:
  "trace (uh_move_ctor D this other st) = trace st
   \<and> ext (uh_move_ctor D this other st) = ext st
   \<and> uh_get (uh_move_ctor D this other st) other = HandleDeleter_null D
   \<and> (this \<noteq> other \<longrightarrow>
        fst (uh_release D this (uh_move_ctor D this other st)) = uh_get st other)
   \<and> trace (uh_move_assign D this other st) =
        trace st @ (if this \<noteq> other \<and> uh_get st this \<noteq> HandleDeleter_null D
                    then [Release (uh_get st this)] else [])
   \<and> ext (uh_move_assign D this other st) =
        (if this \<noteq> other \<and> uh_get st this \<noteq> HandleDeleter_null D
         then HandleDeleter_release D (uh_get st this) (ext st) else ext st)
   \<and> uh_get (uh_move_assign D this other st) other =
        (if this = other then uh_get st other else HandleDeleter_null D)
   \<and> fst (uh_release D this (uh_move_assign D this other st)) = uh_get st other
   \<and> trace (sp_move_ctor this other pst) = trace pst
   \<and> ext (sp_move_ctor this other pst) = ext pst
   \<and> sp_get (sp_move_ctor this other pst) other = nullptr
   \<and> (this \<noteq> other \<longrightarrow>
        fst (sp_release this (sp_move_ctor this other pst)) = sp_get pst other)
   \<and> trace (sp_move_assign E this other pst) =
        trace pst @ (if this \<noteq> other \<and> sp_get pst this \<noteq> nullptr
                     then [Release (sp_get pst this)] else [])
   \<and> ext (sp_move_assign E this other pst) =
        (if this \<noteq> other \<and> sp_get pst this \<noteq> nullptr
         then GenericDeleter_release E (sp_get pst this) (ext pst) else ext pst)
   \<and> sp_get (sp_move_assign E this other pst) other =
        (if this = other then sp_get pst other else nullptr)
   \<and> fst (sp_release this (sp_move_assign E this other pst)) = sp_get pst other"
  by (simp add: uh_ops sp_ops Let_def)

theorem move_transfers_ownership_witness:
  "trace (uh_move_ctor posix_file 3 1 two_fd_world) = []
   \<and> uh_get (uh_move_ctor posix_file 3 1 two_fd_world) 1 = - 1
   \<and> fst (uh_release posix_file 3 (uh_move_ctor posix_file 3 1 two_fd_world)) = 5
   \<and> trace (uh_move_assign posix_file 3 1 two_fd_world) = []
   \<and> uh_get (uh_move_assign posix_file 3 1 two_fd_world) 1 = - 1
   \<and> fst (uh_release posix_file 3 (uh_move_assign posix_file 3 1 two_fd_world)) = 5
   \<and> trace (sp_move_ctor 3 1 two_ptr_world) = []
   \<and> sp_get (sp_move_ctor 3 1 two_ptr_world) 1 = nullptr
   \<and> fst (sp_release 3 (sp_move_ctor 3 1 two_ptr_world)) = 5
   \<and> trace (sp_move_assign refcount 2 1 two_ptr_world) = [Release 7]
   \<and> ext (sp_move_assign refcount 2 1 two_ptr_world) 7 = 0
   \<and> ext (sp_move_assign refcount 2 1 two_ptr_world) 5 = 1
   \<and> sp_get (sp_move_assign refcount 2 1 two_ptr_world) 1 = nullptr
   \<and> fst (sp_release 2 (sp_move_assign refcount 2 1 two_ptr_world)) = 5"
proof -
  have distinct: "(3::nat) \<noteq> 1" "(2::nat) \<noteq> 1"
    by simp_all
  show ?thesis
    using distinct
      move_transfers_ownership [of posix_file 3 1 two_fd_world two_ptr_world refcount]
      move_transfers_ownership [of posix_file 2 1 two_fd_world two_ptr_world refcount]
    by (simp add: two_fd_world_def two_ptr_world_def posix_file_def refcount_def
        uh_get_def sp_get_def)
qed

text \<open>
  Move assignment onto wrapper 2, which holds address 7, from wrapper 1 calls
  \<^verbatim>\<open>release(7)\<close>; and after wrapper 1 is move-assigned to itself, the moved-from wrapper
  still holds address 5.
\<close>

theorem move_assign_releases_counterexample:
  "trace two_ptr_world = []
   \<and> trace (sp_move_assign refcount 2 1 two_ptr_world) = [Release 7]
   \<and> trace (sp_move_assign refcount 2 1 two_ptr_world) \<noteq> trace two_ptr_world
   \<and> sp_get (sp_move_assign refcount 1 1 two_ptr_world) 1 = 5
   \<and> sp_get (sp_move_assign refcount 1 1 two_ptr_world) 1 \<noteq> nullptr"
  by (simp add: two_ptr_world_def refcount_def sp_ops Let_def)

section \<open>Reset, assignment of the null literal, destruction\<close>

lemma released_append: "released (xs @ ys) = released xs @ released ys"
  by (induction xs rule: released.induct) simp_all

lemma add_refed_append: "add_refed (xs @ ys) = add_refed xs @ add_refed ys"
  by (induction xs rule: add_refed.induct) simp_all

text \<open>
  C7, as the code has it. For the scalar handle and for the pointer wrappers:
  \<^verbatim>\<open>reset()\<close> followed by destruction releases what the wrapper held once if it was not
  null and never otherwise, so at most once in total, the destructor adding no call
  after \<^verbatim>\<open>reset()\<close>. Destruction makes the same calls to the policy, with the same effect
  on what the policy manages, as \<^verbatim>\<open>reset()\<close> with the default null value, and there the
  equivalence ends: \<^verbatim>\<open>reset()\<close> stores null in the wrapper before it calls \<^verbatim>\<open>release\<close>,
  while the destructor never writes the wrapper, so its \<^verbatim>\<open>release\<close> runs while the
  wrapper still holds the value. The world after destruction is the world after
  \<^verbatim>\<open>reset()\<close> with the wrappers' fields as they were before and with the value, in place
  of null, as what \<^verbatim>\<open>release\<close> found in the wrapper.
\<close>

theorem reset_then_destroy_releases_at_most_once:
  "trace (uh_dtor D this (uh_reset D this (HandleDeleter_null D) st)) =
     trace (uh_reset D this (HandleDeleter_null D) st)
   \<and> released (trace (uh_dtor D this (uh_reset D this (HandleDeleter_null D) st))) =
       released (trace st) @
         (if uh_get st this = HandleDeleter_null D then [] else [uh_get st this])
   \<and> length (released (trace (uh_dtor D this (uh_reset D this (HandleDeleter_null D) st))))
       \<le> length (released (trace st)) + 1
   \<and> ext (uh_dtor D this (uh_reset D this (HandleDeleter_null D) st)) =
       (if uh_get st this = HandleDeleter_null D then ext st
        else HandleDeleter_release D (uh_get st this) (ext st))
   \<and> trace (uh_dtor D this st) = trace (uh_reset D this (HandleDeleter_null D) st)
   \<and> ext (uh_dtor D this st) = ext (uh_reset D this (HandleDeleter_null D) st)
   \<and> slots (uh_reset D this (HandleDeleter_null D) st) =
       (slots st)(this := HandleDeleter_null D)
   \<and> slots (uh_dtor D this st) = slots st
   \<and> seen (uh_reset D this (HandleDeleter_null D) st) =
       seen st @ (if uh_get st this = HandleDeleter_null D then []
                  else [HandleDeleter_null D])
   \<and> seen (uh_dtor D this st) =
       seen st @ (if uh_get st this = HandleDeleter_null D then [] else [uh_get st this])
   \<and> uh_dtor D this st =
       (uh_reset D this (HandleDeleter_null D) st)
         \<lparr>slots := slots st,
          seen := seen st @ (if uh_get st this = HandleDeleter_null D then []
                             else [uh_get st this])\<rparr>
   \<and> trace (sp_dtor E this (sp_reset E this nullptr pst)) = trace (sp_reset E this nullptr pst)
   \<and> released (trace (sp_dtor E this (sp_reset E this nullptr pst))) =
       released (trace pst) @ (if sp_get pst this = nullptr then [] else [sp_get pst this])
   \<and> length (released (trace (sp_dtor E this (sp_reset E this nullptr pst))))
       \<le> length (released (trace pst)) + 1
   \<and> ext (sp_dtor E this (sp_reset E this nullptr pst)) =
       (if sp_get pst this = nullptr then ext pst
        else GenericDeleter_release E (sp_get pst this) (ext pst))
   \<and> trace (sp_dtor E this pst) = trace (sp_reset E this nullptr pst)
   \<and> ext (sp_dtor E this pst) = ext (sp_reset E this nullptr pst)
   \<and> slots (sp_reset E this nullptr pst) = (slots pst)(this := nullptr)
   \<and> slots (sp_dtor E this pst) = slots pst
   \<and> seen (sp_reset E this nullptr pst) =
       seen pst @ (if sp_get pst this = nullptr then [] else [nullptr])
   \<and> seen (sp_dtor E this pst) =
       seen pst @ (if sp_get pst this = nullptr then [] else [sp_get pst this])
   \<and> sp_dtor E this pst =
       (sp_reset E this nullptr pst)
         \<lparr>slots := slots pst,
          seen := seen pst @ (if sp_get pst this = nullptr then []
                              else [sp_get pst this])\<rparr>"
  by (simp add: uh_ops sp_ops Let_def released_append)

text \<open>
  Destruction is not \<^verbatim>\<open>reset()\<close>. For pointer wrapper 1, which holds address 5, and for
  handle wrapper 1, which holds descriptor 5: after \<^verbatim>\<open>reset()\<close> the wrapper holds null
  and \<^verbatim>\<open>release\<close> found null in it; the destructor leaves 5 in the wrapper and
  \<^verbatim>\<open>release\<close> found 5 in it. Both make the one call \<^verbatim>\<open>release(5)\<close>.
\<close>

theorem dtor_is_not_reset_counterexample:
  "sp_dtor refcount 1 two_ptr_world \<noteq> sp_reset refcount 1 nullptr two_ptr_world
   \<and> trace (sp_dtor refcount 1 two_ptr_world) = [Release 5]
   \<and> trace (sp_reset refcount 1 nullptr two_ptr_world) = [Release 5]
   \<and> sp_get (sp_dtor refcount 1 two_ptr_world) 1 = 5
   \<and> sp_get (sp_reset refcount 1 nullptr two_ptr_world) 1 = nullptr
   \<and> seen (sp_dtor refcount 1 two_ptr_world) = [5]
   \<and> seen (sp_reset refcount 1 nullptr two_ptr_world) = [nullptr]
   \<and> uh_dtor posix_file 1 two_fd_world \<noteq> uh_reset posix_file 1 (- 1) two_fd_world
   \<and> trace (uh_dtor posix_file 1 two_fd_world) = [Release 5]
   \<and> trace (uh_reset posix_file 1 (- 1) two_fd_world) = [Release 5]
   \<and> uh_get (uh_dtor posix_file 1 two_fd_world) 1 = 5
   \<and> uh_get (uh_reset posix_file 1 (- 1) two_fd_world) 1 = - 1
   \<and> seen (uh_dtor posix_file 1 two_fd_world) = [5]
   \<and> seen (uh_reset posix_file 1 (- 1) two_fd_world) = [- 1]"
proof -
  have ptr_seen: "seen (sp_dtor refcount 1 two_ptr_world) = [5]"
    "seen (sp_reset refcount 1 nullptr two_ptr_world) = [nullptr]"
    by (simp_all add: two_ptr_world_def refcount_def sp_ops Let_def)
  have fd_seen: "seen (uh_dtor posix_file 1 two_fd_world) = [5]"
    "seen (uh_reset posix_file 1 (- 1) two_fd_world) = [- 1]"
    by (simp_all add: two_fd_world_def posix_file_def uh_ops Let_def)
  have ptr_differ:
    "sp_dtor refcount 1 two_ptr_world \<noteq> sp_reset refcount 1 nullptr two_ptr_world"
  proof
    assume "sp_dtor refcount 1 two_ptr_world = sp_reset refcount 1 nullptr two_ptr_world"
    then have "seen (sp_dtor refcount 1 two_ptr_world) =
                 seen (sp_reset refcount 1 nullptr two_ptr_world)"
      by (rule arg_cong)
    then show False using ptr_seen by simp
  qed
  have fd_differ:
    "uh_dtor posix_file 1 two_fd_world \<noteq> uh_reset posix_file 1 (- 1) two_fd_world"
  proof
    assume "uh_dtor posix_file 1 two_fd_world = uh_reset posix_file 1 (- 1) two_fd_world"
    then have "seen (uh_dtor posix_file 1 two_fd_world) =
                 seen (uh_reset posix_file 1 (- 1) two_fd_world)"
      by (rule arg_cong)
    then show False using fd_seen by simp
  qed
  have ptr_rest: "trace (sp_dtor refcount 1 two_ptr_world) = [Release 5]"
    "trace (sp_reset refcount 1 nullptr two_ptr_world) = [Release 5]"
    "sp_get (sp_dtor refcount 1 two_ptr_world) 1 = 5"
    "sp_get (sp_reset refcount 1 nullptr two_ptr_world) 1 = nullptr"
    by (simp_all add: two_ptr_world_def refcount_def sp_ops Let_def)
  have fd_rest: "trace (uh_dtor posix_file 1 two_fd_world) = [Release 5]"
    "trace (uh_reset posix_file 1 (- 1) two_fd_world) = [Release 5]"
    "uh_get (uh_dtor posix_file 1 two_fd_world) 1 = 5"
    "uh_get (uh_reset posix_file 1 (- 1) two_fd_world) 1 = - 1"
    by (simp_all add: two_fd_world_def posix_file_def uh_ops Let_def)
  show ?thesis
    using ptr_seen fd_seen ptr_differ fd_differ ptr_rest fd_rest by simp
qed

text \<open>
  C10. Assigning the null literal is \<^verbatim>\<open>reset()\<close>: the wrapper holds null afterwards, and
  the policy's \<^verbatim>\<open>release\<close> is called exactly once, on the value held, when that was not
  null, and not at all when it was; nothing else of the policy is called. This holds
  for the scalar handle and for the pointer wrappers.
\<close>

theorem assign_nullptr_is_reset:
  "uh_assign_nullptr D this st = uh_reset D this (HandleDeleter_null D) st
   \<and> uh_get (uh_assign_nullptr D this st) this = HandleDeleter_null D
   \<and> trace (uh_assign_nullptr D this st) =
       trace st @ (if uh_get st this = HandleDeleter_null D then []
                   else [Release (uh_get st this)])
   \<and> ext (uh_assign_nullptr D this st) =
       (if uh_get st this = HandleDeleter_null D then ext st
        else HandleDeleter_release D (uh_get st this) (ext st))
   \<and> sp_assign_nullptr E this pst = sp_reset E this nullptr pst
   \<and> sp_get (sp_assign_nullptr E this pst) this = nullptr
   \<and> trace (sp_assign_nullptr E this pst) =
       trace pst @ (if sp_get pst this = nullptr then [] else [Release (sp_get pst this)])
   \<and> ext (sp_assign_nullptr E this pst) =
       (if sp_get pst this = nullptr then ext pst
        else GenericDeleter_release E (sp_get pst this) (ext pst))"
  by (simp add: uh_ops sp_ops Let_def)

section \<open>Release is never called on null\<close>

lemma uh_do_trace:
  "\<exists>new. trace (uh_do D c st) = trace st @ new \<and> Release (HandleDeleter_null D) \<notin> set new"
  by (cases c) (simp_all add: uh_ops Let_def)

lemma uh_run_trace:
  "\<exists>new. trace (uh_run D cs st) = trace st @ new \<and> Release (HandleDeleter_null D) \<notin> set new"
proof (induction cs arbitrary: st)
  case Nil
  show ?case by simp
next
  case (Cons c cs)
  obtain n1 where n1: "trace (uh_do D c st) = trace st @ n1"
    "Release (HandleDeleter_null D) \<notin> set n1"
    using uh_do_trace by blast
  obtain n2 where n2: "trace (uh_run D cs (uh_do D c st)) = trace (uh_do D c st) @ n2"
    "Release (HandleDeleter_null D) \<notin> set n2"
    using Cons.IH by blast
  have "trace (uh_run D (c # cs) st) = trace st @ (n1 @ n2)"
    using n1 n2 by simp
  moreover have "Release (HandleDeleter_null D) \<notin> set (n1 @ n2)"
    using n1 n2 by simp
  ultimately show ?case by blast
qed

lemma shared_copy_ctor_null:
  assumes "slots st other = nullptr"
  shows "shared_copy_ctor D this other st =
           Returned (st\<lparr>slots := (slots st)(this := nullptr)\<rparr>)"
  using assms by (simp add: shared_copy_ctor_def sp_ctor_def sp_get_def)

lemma shared_copy_ctor_returned:
  assumes "slots st other = p" and "p \<noteq> nullptr"
    and "GenericDeleter_add_ref D p (ext st) = Returned x"
  shows "shared_copy_ctor D this other st =
           Returned (st\<lparr>slots := (slots st)(this := p), ext := x,
                        trace := trace st @ [AddRef p]\<rparr>)"
  using assms
  by (simp add: shared_copy_ctor_def sp_ctor_def sp_get_def sp_call_add_ref_def)

lemma shared_copy_ctor_raised:
  assumes "slots st other = p" and "p \<noteq> nullptr"
    and "GenericDeleter_add_ref D p (ext st) = Raised x"
  shows "shared_copy_ctor D this other st =
           Raised (st\<lparr>slots := (slots st)(this := p),
                      ext := GenericDeleter_release D p x,
                      trace := trace st @ [AddRef p, Release p],
                      seen := seen st @ [p]\<rparr>)"
  using assms
  by (simp add: shared_copy_ctor_def sp_ctor_def sp_get_def sp_call_add_ref_def
      sp_dtor_def sp_call_release_def)

lemma shared_copy_ctor_trace:
  "\<exists>new. trace (state_of (shared_copy_ctor D this other st)) = trace st @ new
         \<and> Release nullptr \<notin> set new"
proof (cases "slots st other = nullptr")
  case True
  then show ?thesis by (simp add: shared_copy_ctor_null)
next
  case False
  show ?thesis
  proof (cases "GenericDeleter_add_ref D (slots st other) (ext st)")
    case (Returned x)
    then show ?thesis
      using False by (simp add: shared_copy_ctor_returned [OF refl])
  next
    case (Raised x)
    then show ?thesis
      using False by (simp add: shared_copy_ctor_raised [OF refl])
  qed
qed

lemma shared_copy_assign_trace:
  "\<exists>new. trace (state_of (shared_copy_assign D tmp this other st)) = trace st @ new
         \<and> Release nullptr \<notin> set new"
proof -
  obtain n1 where n1: "trace (state_of (shared_copy_ctor D tmp other st)) = trace st @ n1"
    "Release nullptr \<notin> set n1"
    using shared_copy_ctor_trace by blast
  show ?thesis
  proof (cases "shared_copy_ctor D tmp other st")
    case (Raised st1)
    then show ?thesis using n1 by (simp add: shared_copy_assign_def)
  next
    case (Returned st1)
    have "trace (sp_dtor D tmp (sp_swap tmp this st1)) =
            trace st @ (n1 @ (if slots (sp_swap tmp this st1) tmp \<noteq> nullptr
                              then [Release (slots (sp_swap tmp this st1) tmp)] else []))"
      using n1 Returned by (simp add: sp_dtor_trace sp_swap_def)
    moreover have "Release nullptr \<notin> set (n1 @ (if slots (sp_swap tmp this st1) tmp \<noteq> nullptr
                              then [Release (slots (sp_swap tmp this st1) tmp)] else []))"
      using n1 by auto
    ultimately show ?thesis
      using Returned by (simp only: shared_copy_assign_def outcome.case state_of.simps) blast
  qed
qed

lemma sp_do_trace:
  "\<exists>new. trace (state_of (sp_do D c st)) = trace st @ new \<and> Release nullptr \<notin> set new"
proof (cases c)
  case (Shared_copy_ctor this other)
  then show ?thesis using shared_copy_ctor_trace by simp
next
  case (Shared_copy_assign tmp this other)
  then show ?thesis using shared_copy_assign_trace by simp
qed (simp_all add: sp_ops Let_def)

lemma sp_run_trace:
  "\<exists>new. trace (sp_run D cs st) = trace st @ new \<and> Release nullptr \<notin> set new"
proof (induction cs arbitrary: st)
  case Nil
  show ?case by simp
next
  case (Cons c cs)
  obtain n1 where n1: "trace (state_of (sp_do D c st)) = trace st @ n1"
    "Release nullptr \<notin> set n1"
    using sp_do_trace by blast
  obtain n2 where n2:
    "trace (sp_run D cs (state_of (sp_do D c st))) = trace (state_of (sp_do D c st)) @ n2"
    "Release nullptr \<notin> set n2"
    using Cons.IH by blast
  have "trace (sp_run D (c # cs) st) = trace st @ (n1 @ n2)"
    using n1 n2 by simp
  moreover have "Release nullptr \<notin> set (n1 @ n2)"
    using n1 n2 by simp
  ultimately show ?case by blast
qed

text \<open>
  C8. Whatever operations are run on the wrappers (construction, reset, release, move,
  copy, swap, destruction, assignment of the null literal), in any order and from any
  world, none of the calls they add to the trace is a \<^verbatim>\<open>release\<close> of the policy's null
  value, for the scalar handle, or of the null pointer, for the pointer wrappers.
\<close>

theorem release_never_on_null:
  "(\<exists>new. trace (uh_run D cs st) = trace st @ new
         \<and> Release (HandleDeleter_null D) \<notin> set new)
   \<and> (\<exists>new. trace (sp_run E ps pst) = trace pst @ new \<and> Release nullptr \<notin> set new)"
  using uh_run_trace sp_run_trace by blast

section \<open>Copying a shared pointer wrapper\<close>

text \<open>
  C4. Copying a shared pointer wrapper that holds a non-null pointer \<open>p\<close> calls the
  policy's \<^verbatim>\<open>add_ref\<close> exactly once, on \<open>p\<close>. When that call returns, the copy is
  constructed, nothing else has changed but the copy's field and what \<^verbatim>\<open>add_ref\<close> did
  to what the policy manages, the original and the copy both return \<open>p\<close> from
  \<^verbatim>\<open>get()\<close>, and destroying either of them calls \<^verbatim>\<open>release\<close> exactly once, on \<open>p\<close>, with
  the policy's effect. When the call raises, the constructor raises, after the
  destructor of the copy's base has called \<^verbatim>\<open>release\<close> on \<open>p\<close>. Copying a null wrapper
  calls nothing and gives a null wrapper.
\<close>

theorem shared_copy_adds_one_reference:
  assumes "sp_get st other = p"
  shows "(p \<noteq> nullptr \<longrightarrow>
            add_refed (trace (state_of (shared_copy_ctor D this other st))) =
              add_refed (trace st) @ [p])
       \<and> (p \<noteq> nullptr \<and> GenericDeleter_add_ref D p (ext st) = Returned x \<longrightarrow>
            shared_copy_ctor D this other st =
              Returned (state_of (shared_copy_ctor D this other st))
          \<and> state_of (shared_copy_ctor D this other st) =
              st\<lparr>slots := (slots st)(this := p), ext := x, trace := trace st @ [AddRef p]\<rparr>
          \<and> trace (state_of (shared_copy_ctor D this other st)) = trace st @ [AddRef p]
          \<and> ext (state_of (shared_copy_ctor D this other st)) = x
          \<and> sp_get (state_of (shared_copy_ctor D this other st)) this = p
          \<and> sp_get (state_of (shared_copy_ctor D this other st)) other = p
          \<and> trace (sp_dtor D this (state_of (shared_copy_ctor D this other st))) =
              trace st @ [AddRef p, Release p]
          \<and> ext (sp_dtor D this (state_of (shared_copy_ctor D this other st))) =
              GenericDeleter_release D p x
          \<and> trace (sp_dtor D other (state_of (shared_copy_ctor D this other st))) =
              trace st @ [AddRef p, Release p]
          \<and> ext (sp_dtor D other (state_of (shared_copy_ctor D this other st))) =
              GenericDeleter_release D p x)
       \<and> (p \<noteq> nullptr \<and> GenericDeleter_add_ref D p (ext st) = Raised x \<longrightarrow>
            shared_copy_ctor D this other st =
              Raised (state_of (shared_copy_ctor D this other st))
          \<and> trace (state_of (shared_copy_ctor D this other st)) =
              trace st @ [AddRef p, Release p]
          \<and> ext (state_of (shared_copy_ctor D this other st)) =
              GenericDeleter_release D p x
          \<and> sp_get (state_of (shared_copy_ctor D this other st)) other = p)
       \<and> (p = nullptr \<longrightarrow>
            shared_copy_ctor D this other st =
              Returned (state_of (shared_copy_ctor D this other st))
          \<and> state_of (shared_copy_ctor D this other st) =
              st\<lparr>slots := (slots st)(this := nullptr)\<rparr>
          \<and> trace (state_of (shared_copy_ctor D this other st)) = trace st
          \<and> ext (state_of (shared_copy_ctor D this other st)) = ext st
          \<and> sp_get (state_of (shared_copy_ctor D this other st)) this = nullptr)"
proof -
  have held: "slots st other = p"
    using assms by (simp add: sp_get_def)
  have null_case: "p = nullptr \<longrightarrow>
            shared_copy_ctor D this other st =
              Returned (state_of (shared_copy_ctor D this other st))
          \<and> state_of (shared_copy_ctor D this other st) =
              st\<lparr>slots := (slots st)(this := nullptr)\<rparr>
          \<and> trace (state_of (shared_copy_ctor D this other st)) = trace st
          \<and> ext (state_of (shared_copy_ctor D this other st)) = ext st
          \<and> sp_get (state_of (shared_copy_ctor D this other st)) this = nullptr"
    using held by (simp add: shared_copy_ctor_null sp_get_def)
  have returned_case: "p \<noteq> nullptr \<and> GenericDeleter_add_ref D p (ext st) = Returned x \<longrightarrow>
            shared_copy_ctor D this other st =
              Returned (state_of (shared_copy_ctor D this other st))
          \<and> state_of (shared_copy_ctor D this other st) =
              st\<lparr>slots := (slots st)(this := p), ext := x, trace := trace st @ [AddRef p]\<rparr>
          \<and> trace (state_of (shared_copy_ctor D this other st)) = trace st @ [AddRef p]
          \<and> ext (state_of (shared_copy_ctor D this other st)) = x
          \<and> sp_get (state_of (shared_copy_ctor D this other st)) this = p
          \<and> sp_get (state_of (shared_copy_ctor D this other st)) other = p
          \<and> trace (sp_dtor D this (state_of (shared_copy_ctor D this other st))) =
              trace st @ [AddRef p, Release p]
          \<and> ext (sp_dtor D this (state_of (shared_copy_ctor D this other st))) =
              GenericDeleter_release D p x
          \<and> trace (sp_dtor D other (state_of (shared_copy_ctor D this other st))) =
              trace st @ [AddRef p, Release p]
          \<and> ext (sp_dtor D other (state_of (shared_copy_ctor D this other st))) =
              GenericDeleter_release D p x"
    using held
    by (auto simp add: shared_copy_ctor_returned [OF held] sp_get_def sp_dtor_def
        sp_call_release_def)
  have raised_case: "p \<noteq> nullptr \<and> GenericDeleter_add_ref D p (ext st) = Raised x \<longrightarrow>
            shared_copy_ctor D this other st =
              Raised (state_of (shared_copy_ctor D this other st))
          \<and> trace (state_of (shared_copy_ctor D this other st)) =
              trace st @ [AddRef p, Release p]
          \<and> ext (state_of (shared_copy_ctor D this other st)) =
              GenericDeleter_release D p x
          \<and> sp_get (state_of (shared_copy_ctor D this other st)) other = p"
    using held
    by (auto simp add: shared_copy_ctor_raised [OF held] sp_get_def)
  have counted: "p \<noteq> nullptr \<longrightarrow>
            add_refed (trace (state_of (shared_copy_ctor D this other st))) =
              add_refed (trace st) @ [p]"
  proof (cases "GenericDeleter_add_ref D p (ext st)")
    case (Returned y)
    then show ?thesis
      by (simp add: shared_copy_ctor_returned [OF held] add_refed_append)
  next
    case (Raised y)
    then show ?thesis
      by (simp add: shared_copy_ctor_raised [OF held] add_refed_append)
  qed
  show ?thesis
    by (rule conjI [OF counted], rule conjI [OF returned_case],
        rule conjI [OF raised_case], rule null_case)
qed

theorem shared_copy_adds_one_reference_witness:
  "add_refed (trace (state_of (shared_copy_ctor refcount 3 1 two_ptr_world))) = [5]
   \<and> shared_copy_ctor refcount 3 1 two_ptr_world =
       Returned (state_of (shared_copy_ctor refcount 3 1 two_ptr_world))
   \<and> trace (state_of (shared_copy_ctor refcount 3 1 two_ptr_world)) = [AddRef 5]
   \<and> ext (state_of (shared_copy_ctor refcount 3 1 two_ptr_world)) 5 = 2
   \<and> sp_get (state_of (shared_copy_ctor refcount 3 1 two_ptr_world)) 3 = 5
   \<and> sp_get (state_of (shared_copy_ctor refcount 3 1 two_ptr_world)) 1 = 5
   \<and> trace (sp_dtor refcount 3 (state_of (shared_copy_ctor refcount 3 1 two_ptr_world))) =
       [AddRef 5, Release 5]
   \<and> ext (sp_dtor refcount 3 (state_of (shared_copy_ctor refcount 3 1 two_ptr_world))) 5 = 1
   \<and> trace (sp_dtor refcount 1 (state_of (shared_copy_ctor refcount 3 1 two_ptr_world))) =
       [AddRef 5, Release 5]
   \<and> ext (sp_dtor refcount 1 (state_of (shared_copy_ctor refcount 3 1 two_ptr_world))) 5 = 1
   \<and> shared_copy_ctor refusing 3 1 two_ptr_world =
       Raised (state_of (shared_copy_ctor refusing 3 1 two_ptr_world))
   \<and> trace (state_of (shared_copy_ctor refusing 3 1 two_ptr_world)) = [AddRef 5, Release 5]
   \<and> ext (state_of (shared_copy_ctor refusing 3 1 two_ptr_world)) 5 = 0
   \<and> trace (state_of (shared_copy_ctor refcount 3 4 two_ptr_world)) = []
   \<and> ext (state_of (shared_copy_ctor refcount 3 4 two_ptr_world)) 5 = 1
   \<and> sp_get (state_of (shared_copy_ctor refcount 3 4 two_ptr_world)) 3 = nullptr"
proof -
  have held: "sp_get two_ptr_world 1 = 5"
    by (simp add: two_ptr_world_def sp_get_def)
  have empty: "sp_get two_ptr_world 4 = nullptr"
    by (simp add: two_ptr_world_def sp_get_def)
  have returns: "GenericDeleter_add_ref refcount 5 (ext two_ptr_world) =
                   Returned ((ext two_ptr_world)(5 := 2))"
    by (simp add: refcount_def two_ptr_world_def)
  have raises: "GenericDeleter_add_ref refusing 5 (ext two_ptr_world) =
                  Raised (ext two_ptr_world)"
    by (simp add: refusing_def)
  have releases: "GenericDeleter_release refcount 5 ((ext two_ptr_world)(5 := 2)) 5 = 1"
    "GenericDeleter_release refusing 5 (ext two_ptr_world) 5 = 0"
    by (simp_all add: refcount_def refusing_def two_ptr_world_def)
  have start: "trace two_ptr_world = []" "ext two_ptr_world 5 = 1"
    by (simp_all add: two_ptr_world_def)
  have nonnull: "(5::pointer) \<noteq> nullptr"
    by simp
  note copied = shared_copy_adds_one_reference [OF held,
      where D = refcount and this = 3 and x = "(ext two_ptr_world)(5 := 2)"]
  note refused = shared_copy_adds_one_reference [OF held,
      where D = refusing and this = 3 and x = "ext two_ptr_world"]
  note copy_of_null = shared_copy_adds_one_reference [OF empty, where D = refcount and this = 3]
  note copy_made =
    mp [OF copied [THEN conjunct2, THEN conjunct1] conjI [OF nonnull returns]]
  have counted: "add_refed (trace (state_of (shared_copy_ctor refcount 3 1 two_ptr_world))) = [5]"
    using copied [THEN conjunct1] nonnull start by simp
  have returned:
    "shared_copy_ctor refcount 3 1 two_ptr_world =
       Returned (state_of (shared_copy_ctor refcount 3 1 two_ptr_world))"
    "trace (state_of (shared_copy_ctor refcount 3 1 two_ptr_world)) = [AddRef 5]"
    "ext (state_of (shared_copy_ctor refcount 3 1 two_ptr_world)) 5 = 2"
    "sp_get (state_of (shared_copy_ctor refcount 3 1 two_ptr_world)) 3 = 5"
    "sp_get (state_of (shared_copy_ctor refcount 3 1 two_ptr_world)) 1 = 5"
    "trace (sp_dtor refcount 3 (state_of (shared_copy_ctor refcount 3 1 two_ptr_world))) =
       [AddRef 5, Release 5]"
    "ext (sp_dtor refcount 3 (state_of (shared_copy_ctor refcount 3 1 two_ptr_world))) 5 = 1"
    "trace (sp_dtor refcount 1 (state_of (shared_copy_ctor refcount 3 1 two_ptr_world))) =
       [AddRef 5, Release 5]"
    "ext (sp_dtor refcount 1 (state_of (shared_copy_ctor refcount 3 1 two_ptr_world))) 5 = 1"
    using copy_made [THEN conjunct1] copy_made [THEN conjunct2, THEN conjunct2]
      start releases
    by simp_all
  have raised:
    "shared_copy_ctor refusing 3 1 two_ptr_world =
       Raised (state_of (shared_copy_ctor refusing 3 1 two_ptr_world))"
    "trace (state_of (shared_copy_ctor refusing 3 1 two_ptr_world)) = [AddRef 5, Release 5]"
    "ext (state_of (shared_copy_ctor refusing 3 1 two_ptr_world)) 5 = 0"
    using mp [OF refused [THEN conjunct2, THEN conjunct2, THEN conjunct1]
        conjI [OF nonnull raises]] start releases
    by simp_all
  have null:
    "trace (state_of (shared_copy_ctor refcount 3 4 two_ptr_world)) = []"
    "ext (state_of (shared_copy_ctor refcount 3 4 two_ptr_world)) 5 = 1"
    "sp_get (state_of (shared_copy_ctor refcount 3 4 two_ptr_world)) 3 = nullptr"
    using mp [OF copy_of_null [THEN conjunct2, THEN conjunct2, THEN conjunct2] refl,
        THEN conjunct2, THEN conjunct2] start
    by simp_all
  show ?thesis
    using counted returned raised null by simp
qed

text \<open>
  C5. Copy assignment of a shared pointer wrapper constructs a temporary copy of the
  source, swaps it with \<^verbatim>\<open>*this\<close> and destroys it. If the policy's \<^verbatim>\<open>add_ref\<close> raises
  during the copy, the assignment raises and \<^verbatim>\<open>*this\<close> holds the pointer it held before.
  (The temporary's base was already constructed, so its destructor runs and releases
  the source's pointer.) If the copy succeeds, \<^verbatim>\<open>*this\<close> holds the source's pointer, and
  the pointer it held before is released exactly once if it was not null (and nothing
  is released if it was null), after the \<^verbatim>\<open>add_ref\<close> of the copy, by the destructor of
  the temporary, which holds that pointer then: what the policy manages is what
  \<^verbatim>\<open>add_ref\<close> left, with the policy's \<^verbatim>\<open>release\<close> applied to it for the old pointer.
\<close>

theorem copy_assign_is_copy_and_swap:
  assumes "tmp \<noteq> this" and "tmp \<noteq> other"
    and "sp_get st other = q" and "sp_get st this = old"
  shows "shared_copy_assign D tmp this other st =
           (case shared_copy_ctor D tmp other st of
              Raised s \<Rightarrow> Raised s
            | Returned s \<Rightarrow> Returned (sp_dtor D tmp (sp_swap tmp this s)))
       \<and> (q \<noteq> nullptr \<and> GenericDeleter_add_ref D q (ext st) = Raised x \<longrightarrow>
            shared_copy_assign D tmp this other st =
              Raised (state_of (shared_copy_assign D tmp this other st))
          \<and> sp_get (state_of (shared_copy_assign D tmp this other st)) this = old
          \<and> sp_get (state_of (shared_copy_assign D tmp this other st)) other = q
          \<and> trace (state_of (shared_copy_assign D tmp this other st)) =
              trace st @ [AddRef q, Release q]
          \<and> ext (state_of (shared_copy_assign D tmp this other st)) =
              GenericDeleter_release D q x)
       \<and> (q = nullptr \<or> GenericDeleter_add_ref D q (ext st) = Returned x \<longrightarrow>
            shared_copy_assign D tmp this other st =
              Returned (state_of (shared_copy_assign D tmp this other st))
          \<and> sp_get (state_of (shared_copy_assign D tmp this other st)) this = q
          \<and> sp_get (state_of (shared_copy_assign D tmp this other st)) other = q
          \<and> trace (state_of (shared_copy_assign D tmp this other st)) =
              trace st @ (if q = nullptr then [] else [AddRef q])
                       @ (if old = nullptr then [] else [Release old])
          \<and> released (trace (state_of (shared_copy_assign D tmp this other st))) =
              released (trace st) @ (if old = nullptr then [] else [old])
          \<and> ext (state_of (shared_copy_assign D tmp this other st)) =
              (if old = nullptr then (if q = nullptr then ext st else x)
               else GenericDeleter_release D old (if q = nullptr then ext st else x))
          \<and> seen (state_of (shared_copy_assign D tmp this other st)) =
              seen st @ (if old = nullptr then [] else [old]))"
proof -
  have held: "slots st other = q" and mine: "slots st this = old"
    using assms by (simp_all add: sp_get_def)
  have shape: "shared_copy_assign D tmp this other st =
           (case shared_copy_ctor D tmp other st of
              Raised s \<Rightarrow> Raised s
            | Returned s \<Rightarrow> Returned (sp_dtor D tmp (sp_swap tmp this s)))"
    by (simp add: shared_copy_assign_def split: outcome.splits)
  have raised_case: "q \<noteq> nullptr \<and> GenericDeleter_add_ref D q (ext st) = Raised x \<longrightarrow>
            shared_copy_assign D tmp this other st =
              Raised (state_of (shared_copy_assign D tmp this other st))
          \<and> sp_get (state_of (shared_copy_assign D tmp this other st)) this = old
          \<and> sp_get (state_of (shared_copy_assign D tmp this other st)) other = q
          \<and> trace (state_of (shared_copy_assign D tmp this other st)) =
              trace st @ [AddRef q, Release q]
          \<and> ext (state_of (shared_copy_assign D tmp this other st)) =
              GenericDeleter_release D q x"
    using assms(1,2) held mine
    by (auto simp add: shared_copy_assign_def shared_copy_ctor_raised [OF held] sp_get_def)
  have null_case: "q = nullptr \<longrightarrow>
            shared_copy_assign D tmp this other st =
              Returned (state_of (shared_copy_assign D tmp this other st))
          \<and> sp_get (state_of (shared_copy_assign D tmp this other st)) this = q
          \<and> sp_get (state_of (shared_copy_assign D tmp this other st)) other = q
          \<and> trace (state_of (shared_copy_assign D tmp this other st)) =
              trace st @ (if q = nullptr then [] else [AddRef q])
                       @ (if old = nullptr then [] else [Release old])
          \<and> released (trace (state_of (shared_copy_assign D tmp this other st))) =
              released (trace st) @ (if old = nullptr then [] else [old])
          \<and> ext (state_of (shared_copy_assign D tmp this other st)) =
              (if old = nullptr then (if q = nullptr then ext st else x)
               else GenericDeleter_release D old (if q = nullptr then ext st else x))
          \<and> seen (state_of (shared_copy_assign D tmp this other st)) =
              seen st @ (if old = nullptr then [] else [old])"
    using assms(1,2) held mine
    by (auto simp add: shared_copy_assign_def shared_copy_ctor_null sp_get_def
        sp_dtor_def sp_call_release_def sp_swap_def released_append)
  have returned_case: "q \<noteq> nullptr \<and> GenericDeleter_add_ref D q (ext st) = Returned x \<longrightarrow>
            shared_copy_assign D tmp this other st =
              Returned (state_of (shared_copy_assign D tmp this other st))
          \<and> sp_get (state_of (shared_copy_assign D tmp this other st)) this = q
          \<and> sp_get (state_of (shared_copy_assign D tmp this other st)) other = q
          \<and> trace (state_of (shared_copy_assign D tmp this other st)) =
              trace st @ (if q = nullptr then [] else [AddRef q])
                       @ (if old = nullptr then [] else [Release old])
          \<and> released (trace (state_of (shared_copy_assign D tmp this other st))) =
              released (trace st) @ (if old = nullptr then [] else [old])
          \<and> ext (state_of (shared_copy_assign D tmp this other st)) =
              (if old = nullptr then (if q = nullptr then ext st else x)
               else GenericDeleter_release D old (if q = nullptr then ext st else x))
          \<and> seen (state_of (shared_copy_assign D tmp this other st)) =
              seen st @ (if old = nullptr then [] else [old])"
    using assms(1,2) held mine
    by (auto simp add: shared_copy_assign_def shared_copy_ctor_returned [OF held] sp_get_def
        sp_dtor_def sp_call_release_def sp_swap_def released_append)
  have good_case: "q = nullptr \<or> GenericDeleter_add_ref D q (ext st) = Returned x \<longrightarrow>
            shared_copy_assign D tmp this other st =
              Returned (state_of (shared_copy_assign D tmp this other st))
          \<and> sp_get (state_of (shared_copy_assign D tmp this other st)) this = q
          \<and> sp_get (state_of (shared_copy_assign D tmp this other st)) other = q
          \<and> trace (state_of (shared_copy_assign D tmp this other st)) =
              trace st @ (if q = nullptr then [] else [AddRef q])
                       @ (if old = nullptr then [] else [Release old])
          \<and> released (trace (state_of (shared_copy_assign D tmp this other st))) =
              released (trace st) @ (if old = nullptr then [] else [old])
          \<and> ext (state_of (shared_copy_assign D tmp this other st)) =
              (if old = nullptr then (if q = nullptr then ext st else x)
               else GenericDeleter_release D old (if q = nullptr then ext st else x))
          \<and> seen (state_of (shared_copy_assign D tmp this other st)) =
              seen st @ (if old = nullptr then [] else [old])"
    (is "?success \<longrightarrow> ?good")
  proof (cases "q = nullptr")
    case True
    have ?good by (rule mp [OF null_case True])
    then show ?thesis by - (rule impI, assumption)
  next
    case False
    show ?thesis
    proof (rule impI)
      assume ?success
      with False have returns: "GenericDeleter_add_ref D q (ext st) = Returned x"
        by blast
      show ?good by (rule mp [OF returned_case conjI [OF False returns]])
    qed
  qed
  show ?thesis
    by (rule conjI [OF shape], rule conjI [OF raised_case], rule good_case)
qed

theorem copy_assign_is_copy_and_swap_witness:
  "shared_copy_assign refusing 9 2 1 two_ptr_world =
     Raised (state_of (shared_copy_assign refusing 9 2 1 two_ptr_world))
   \<and> sp_get (state_of (shared_copy_assign refusing 9 2 1 two_ptr_world)) 2 = 7
   \<and> sp_get (state_of (shared_copy_assign refusing 9 2 1 two_ptr_world)) 1 = 5
   \<and> trace (state_of (shared_copy_assign refusing 9 2 1 two_ptr_world)) =
       [AddRef 5, Release 5]
   \<and> ext (state_of (shared_copy_assign refusing 9 2 1 two_ptr_world)) 5 = 0
   \<and> shared_copy_assign refcount 9 2 1 two_ptr_world =
       Returned (state_of (shared_copy_assign refcount 9 2 1 two_ptr_world))
   \<and> sp_get (state_of (shared_copy_assign refcount 9 2 1 two_ptr_world)) 2 = 5
   \<and> sp_get (state_of (shared_copy_assign refcount 9 2 1 two_ptr_world)) 1 = 5
   \<and> trace (state_of (shared_copy_assign refcount 9 2 1 two_ptr_world)) =
       [AddRef 5, Release 7]
   \<and> released (trace (state_of (shared_copy_assign refcount 9 2 1 two_ptr_world))) = [7]
   \<and> ext (state_of (shared_copy_assign refcount 9 2 1 two_ptr_world)) 5 = 2
   \<and> ext (state_of (shared_copy_assign refcount 9 2 1 two_ptr_world)) 7 = 0
   \<and> seen (state_of (shared_copy_assign refcount 9 2 1 two_ptr_world)) = [7]"
proof -
  have fresh: "(9::nat) \<noteq> 2" "(9::nat) \<noteq> 1"
    by simp_all
  have held: "sp_get two_ptr_world 1 = 5" and mine: "sp_get two_ptr_world 2 = 7"
    by (simp_all add: two_ptr_world_def sp_get_def)
  have raises: "GenericDeleter_add_ref refusing 5 (ext two_ptr_world) =
                  Raised (ext two_ptr_world)"
    by (simp add: refusing_def)
  have returns: "GenericDeleter_add_ref refcount 5 (ext two_ptr_world) =
                   Returned ((ext two_ptr_world)(5 := 2))"
    by (simp add: refcount_def two_ptr_world_def)
  have releases: "GenericDeleter_release refusing 5 (ext two_ptr_world) 5 = 0"
    "GenericDeleter_release refcount 7 ((ext two_ptr_world)(5 := 2)) 5 = 2"
    "GenericDeleter_release refcount 7 ((ext two_ptr_world)(5 := 2)) 7 = 0"
    by (simp_all add: refcount_def refusing_def two_ptr_world_def)
  have start: "trace two_ptr_world = []" "seen two_ptr_world = []"
    by (simp_all add: two_ptr_world_def)
  have nonnull: "(5::pointer) \<noteq> nullptr"
    by simp
  note refused = copy_assign_is_copy_and_swap [OF fresh held mine,
      where D = refusing and x = "ext two_ptr_world"]
  note assigned = copy_assign_is_copy_and_swap [OF fresh held mine,
      where D = refcount and x = "(ext two_ptr_world)(5 := 2)"]
  have raised:
    "shared_copy_assign refusing 9 2 1 two_ptr_world =
       Raised (state_of (shared_copy_assign refusing 9 2 1 two_ptr_world))"
    "sp_get (state_of (shared_copy_assign refusing 9 2 1 two_ptr_world)) 2 = 7"
    "sp_get (state_of (shared_copy_assign refusing 9 2 1 two_ptr_world)) 1 = 5"
    "trace (state_of (shared_copy_assign refusing 9 2 1 two_ptr_world)) =
       [AddRef 5, Release 5]"
    "ext (state_of (shared_copy_assign refusing 9 2 1 two_ptr_world)) 5 = 0"
    using mp [OF refused [THEN conjunct2, THEN conjunct1] conjI [OF nonnull raises]]
      start releases
    by simp_all
  have returned:
    "shared_copy_assign refcount 9 2 1 two_ptr_world =
       Returned (state_of (shared_copy_assign refcount 9 2 1 two_ptr_world))"
    "sp_get (state_of (shared_copy_assign refcount 9 2 1 two_ptr_world)) 2 = 5"
    "sp_get (state_of (shared_copy_assign refcount 9 2 1 two_ptr_world)) 1 = 5"
    "trace (state_of (shared_copy_assign refcount 9 2 1 two_ptr_world)) =
       [AddRef 5, Release 7]"
    "released (trace (state_of (shared_copy_assign refcount 9 2 1 two_ptr_world))) = [7]"
    "ext (state_of (shared_copy_assign refcount 9 2 1 two_ptr_world)) 5 = 2"
    "ext (state_of (shared_copy_assign refcount 9 2 1 two_ptr_world)) 7 = 0"
    "seen (state_of (shared_copy_assign refcount 9 2 1 two_ptr_world)) = [7]"
    using mp [OF assigned [THEN conjunct2, THEN conjunct2] disjI2 [OF returns]]
      start releases
    by simp_all
  show ?thesis
    using raised returned by simp
qed

text \<open>
  C6. Copy self-assignment \<^verbatim>\<open>a = a\<close> of a shared pointer wrapper returns, leaves the
  pointer of \<open>a\<close> as it was and, for a policy whose \<^verbatim>\<open>release\<close> undoes its \<^verbatim>\<open>add_ref\<close> (a
  reference count), leaves what the policy manages, the reference counts, as it was:
  for a non-null \<open>a\<close> the calls are one \<^verbatim>\<open>add_ref\<close>, by the temporary copy, then one
  \<^verbatim>\<open>release\<close>, by the temporary's destructor, and for a null \<open>a\<close> there is no call.
\<close>

theorem self_assignment_changes_nothing:
  assumes "tmp \<noteq> a" and "sp_get st a = p"
    and "p \<noteq> nullptr \<longrightarrow>
           GenericDeleter_add_ref D p (ext st) = Returned x
         \<and> GenericDeleter_release D p x = ext st"
  shows "shared_copy_assign D tmp a a st =
           Returned (state_of (shared_copy_assign D tmp a a st))
       \<and> sp_get (state_of (shared_copy_assign D tmp a a st)) a = p
       \<and> ext (state_of (shared_copy_assign D tmp a a st)) = ext st
       \<and> trace (state_of (shared_copy_assign D tmp a a st)) =
           trace st @ (if p = nullptr then [] else [AddRef p, Release p])"
proof (cases "p = nullptr")
  case True
  have held: "slots st a = nullptr"
    using assms(2) True by (simp add: sp_get_def)
  show ?thesis
    using assms(1) True held
    by (simp add: shared_copy_assign_def shared_copy_ctor_null sp_get_def
        sp_dtor_def sp_swap_def)
next
  case False
  have held: "slots st a = p"
    using assms(2) by (simp add: sp_get_def)
  have returns: "GenericDeleter_add_ref D p (ext st) = Returned x"
    and undone: "GenericDeleter_release D p x = ext st"
    using assms(3) False by simp_all
  show ?thesis
    using assms(1) False held undone
    by (simp add: shared_copy_assign_def shared_copy_ctor_returned [OF held False returns]
        sp_get_def sp_dtor_def sp_call_release_def sp_swap_def)
qed

theorem self_assignment_changes_nothing_witness:
  "shared_copy_assign refcount 9 1 1 two_ptr_world =
     Returned (state_of (shared_copy_assign refcount 9 1 1 two_ptr_world))
   \<and> sp_get (state_of (shared_copy_assign refcount 9 1 1 two_ptr_world)) 1 = 5
   \<and> ext (state_of (shared_copy_assign refcount 9 1 1 two_ptr_world)) = ext two_ptr_world
   \<and> ext (state_of (shared_copy_assign refcount 9 1 1 two_ptr_world)) 5 = 1
   \<and> trace (state_of (shared_copy_assign refcount 9 1 1 two_ptr_world)) =
       [AddRef 5, Release 5]"
proof -
  have fresh: "(9::nat) \<noteq> 1"
    by simp
  have held: "sp_get two_ptr_world 1 = 5"
    by (simp add: two_ptr_world_def sp_get_def)
  have policy: "(5::pointer) \<noteq> nullptr \<longrightarrow>
      GenericDeleter_add_ref refcount 5 (ext two_ptr_world) =
        Returned ((ext two_ptr_world)(5 := 2))
    \<and> GenericDeleter_release refcount 5 ((ext two_ptr_world)(5 := 2)) = ext two_ptr_world"
    by (simp add: refcount_def two_ptr_world_def fun_eq_iff)
  have start: "trace two_ptr_world = []" "ext two_ptr_world 5 = 1"
    by (simp_all add: two_ptr_world_def)
  show ?thesis
    using start self_assignment_changes_nothing [OF fresh held policy]
    by simp
qed

section \<open>Comparison and hashing\<close>

text \<open>
  The six comparison operators of each wrapper compare what \<^verbatim>\<open>get()\<close> returns, and
  \<^verbatim>\<open>std::hash<unique_handle<HandleDeleter>>\<close> hashes what \<^verbatim>\<open>get()\<close> returns, so equal
  scalar handles have equal hashes. (The \<^verbatim>\<open>std::hash\<close> specialisations for
  \<^verbatim>\<open>generic_unique_ptr<T, SA>\<close> and \<^verbatim>\<open>generic_shared_ptr<T, SA>\<close> declare
  \<^verbatim>\<open>operator()(const T& x)\<close>, on the pointed-to type and not on the wrapper, and derive
  from \<^verbatim>\<open>std::unary_function<...>::type\<close>, which does not exist: they define no function
  on wrappers.)
\<close>

lemma wrappers_equal_iff_raw_equal:
  "uh_eq st a b = (uh_get st a = uh_get st b)
   \<and> uh_ne st a b = (\<not> uh_eq st a b)
   \<and> unique_eq pst a b = (sp_get pst a = sp_get pst b)
   \<and> unique_ne pst a b = (\<not> unique_eq pst a b)
   \<and> shared_eq pst a b = (sp_get pst a = sp_get pst b)
   \<and> shared_ne pst a b = (\<not> shared_eq pst a b)"
  by (simp add: uh_eq_def uh_ne_def unique_eq_def unique_ne_def shared_eq_def shared_ne_def)

lemma equal_handles_hash_equal:
  assumes "uh_eq st a b"
  shows "uh_hash std_hash st a = uh_hash std_hash st b"
  using assms by (simp add: uh_eq_def uh_hash_def)

end
